theory Spec2Isabelle
  imports Main "HOL-Library.Word"
begin

section \<open>The SOCKS4 / SOCKS4a handshake client of \<^verbatim>\<open>socks4.go\<close>\<close>

text \<open>
  A shallow embedding of \<^verbatim>\<open>socks4.go\<close>. The handshake is sequential code over three
  collaborators that live outside the package: the upstream dialer held by the
  \<^verbatim>\<open>socks4\<close> struct, the connection that dialer returns, and the system resolver.
  They are values of the model (fields of records), so every theorem holds for whatever
  they answer. Each call into a collaborator is recorded as an event, in program order, so
  that statements about what was or was not called are statements about the event list.
\<close>

subsection \<open>Bytes, constants and errors\<close>

type_synonym byte = "8 word"

definition socksVersion :: byte where "socksVersion = 0x04"
definition socksConnect :: byte where "socksConnect = 0x01"
definition socksBind :: byte where "socksBind = 0x02"

definition accessGranted :: byte where "accessGranted = 0x5a"
definition accessRejected :: byte where "accessRejected = 0x5b"
definition accessIdentRequired :: byte where "accessIdentRequired = 0x5c"
definition accessIdentFailed :: byte where "accessIdentFailed = 0x5d"

definition minRequestLen :: int where "minRequestLen = 8"

text \<open>
  Error values of the Go libraries that the package wraps: the three sentinels of
  \<^verbatim>\<open>io\<close>, \<^verbatim>\<open>net.AddrError{Err, Addr}\<close>, \<^verbatim>\<open>strconv.NumError{Func, Num, Err}\<close>, and any
  other error of the network stack, kept as its text.
\<close>

datatype numerr = ErrSyntax | ErrRange

datatype goerr =
    EOF
  | ErrShortWrite
  | ErrUnexpectedEOF
  | AddrError string string
  | NumError string string numerr
  | OtherError string

text \<open>
  The eight \<^verbatim>\<open>typedErrors.String\<close> constants. \<^verbatim>\<open>WithArgs\<close> and \<^verbatim>\<open>Wrap\<close> attach the format
  arguments and the underlying cause; a constructor carries exactly what the source
  attaches at its use sites.
\<close>

datatype error =
    ErrWrongNetwork
  | ErrDialFailed goerr
  | ErrWrongAddr string goerr
  | ErrConnRejected
  | ErrIdentRequired
  | ErrIO goerr
  | ErrHostUnknown string goerr
  | ErrInvalidResponse byte

subsection \<open>Collaborators and events\<close>

text \<open>
  A connection answers \<^verbatim>\<open>Write(req)\<close> with a count and an error, and \<^verbatim>\<open>Read\<close> with the
  bytes it delivers and an error; what the proxy sends back may depend on what was
  written, so \<open>conn_Read\<close> takes the bytes written before.
\<close>

record conn =
  conn_Write :: "byte list \<Rightarrow> int \<times> goerr option"
  conn_Read :: "byte list \<Rightarrow> byte list \<times> goerr option"
  conn_Close :: "goerr option"

record socks4 =
  url_Scheme :: string
  url_Host :: string
  dialer_Dial :: "string \<Rightarrow> string \<Rightarrow> goerr + conn"

text \<open>
  The package variable \<^verbatim>\<open>Ident\<close> and the system resolver \<^verbatim>\<open>net.ResolveIPAddr\<close>, which
  answers with the \<^verbatim>\<open>IP\<close> field of the address it found (a byte slice) or an error.
\<close>

type_synonym IP = "byte list"

record world =
  Ident :: string
  ResolveIPAddr :: "string \<Rightarrow> string \<Rightarrow> goerr + IP"

datatype event =
    EvDial string string
  | EvResolve string string
  | EvWrite "byte list"
  | EvRead
  | EvClose

subsection \<open>Library functions the package calls\<close>

text \<open>Go strings are byte sequences; \<^verbatim>\<open>buf.WriteString\<close> appends those bytes.\<close>

definition bytes_of :: "string \<Rightarrow> byte list" where
  "bytes_of s = map of_char s"

text \<open>\<^verbatim>\<open>bytealg.IndexByteString\<close> and \<^verbatim>\<open>LastIndexByteString\<close>: the index, or -1.\<close>

fun IndexByteString :: "string \<Rightarrow> char \<Rightarrow> int" where
  "IndexByteString [] c = - 1"
| "IndexByteString (x # xs) c =
     (if x = c then 0
      else (let r = IndexByteString xs c in if r < 0 then - 1 else r + 1))"

fun LastIndexByteString :: "string \<Rightarrow> char \<Rightarrow> int" where
  "LastIndexByteString [] c = - 1"
| "LastIndexByteString (x # xs) c =
     (let r = LastIndexByteString xs c
      in if 0 \<le> r then r + 1 else if x = c then 0 else - 1)"

text \<open>The slice \<^verbatim>\<open>s[a:b]\<close> for \<open>0 \<le> a \<le> b \<le> len(s)\<close>.\<close>

definition slice :: "string \<Rightarrow> int \<Rightarrow> int \<Rightarrow> string" where
  "slice s a b = take (nat (b - a)) (drop (nat a) s)"

definition missingPort :: string where "missingPort = ''missing port in address''"
definition tooManyColons :: string where "tooManyColons = ''too many colons in address''"
definition missingBracket :: string where "missingBracket = ''missing ']' in address''"
definition unexpectedLBracket :: string where "unexpectedLBracket = ''unexpected '[' in address''"
definition unexpectedRBracket :: string where "unexpectedRBracket = ''unexpected ']' in address''"

text \<open>
  \<^verbatim>\<open>net.SplitHostPort\<close>, following the standard library: the port starts after the last
  colon; a host in square brackets must end just before that colon; a host without
  brackets has no colon; no other bracket may occur.
\<close>

definition SplitHostPort :: "string \<Rightarrow> goerr + (string \<times> string)" where
  "SplitHostPort hostport =
    (let i = LastIndexByteString hostport CHR '':'' in
     if i < 0 then Inl (AddrError missingPort hostport)
     else
       (case
          (if take 1 hostport = ''[''
           then
             (let end = IndexByteString hostport CHR '']'' in
              if end < 0 then Inl (AddrError missingBracket hostport)
              else if end + 1 = int (length hostport) then Inl (AddrError missingPort hostport)
              else if end + 1 = i then Inr (slice hostport 1 end, 1, end + 1)
              else if take 1 (drop (nat (end + 1)) hostport) = '':''
                then Inl (AddrError tooManyColons hostport)
                else Inl (AddrError missingPort hostport))
           else
             (let host = slice hostport 0 i in
              if 0 \<le> IndexByteString host CHR '':'' then Inl (AddrError tooManyColons hostport)
              else Inr (host, 0, 0)))
        of
          Inl err \<Rightarrow> Inl err
        | Inr (host, j, k) \<Rightarrow>
            if 0 \<le> IndexByteString (drop (nat j) hostport) CHR ''[''
              then Inl (AddrError unexpectedLBracket hostport)
            else if 0 \<le> IndexByteString (drop (nat k) hostport) CHR '']''
              then Inl (AddrError unexpectedRBracket hostport)
            else Inr (host, drop (nat (i + 1)) hostport)))"

text \<open>
  \<^verbatim>\<open>strconv.Atoi\<close>: an optional sign and decimal digits, read left to right; the
  magnitude is accumulated as an unsigned 64-bit number (here an \<open>int\<close> with the bound
  written out) and the value must fit Go's \<^verbatim>\<open>int\<close>, taken as 64 bits wide.
\<close>

definition intSize :: nat where "intSize = 64"

fun parseUint :: "string \<Rightarrow> int \<Rightarrow> numerr + int" where
  "parseUint [] n = Inr n"
| "parseUint (ch # s) n =
     (let d = (of_char ch :: int) in
      if d < 48 \<or> 57 < d then Inl ErrSyntax
      else if 2 ^ intSize \<le> n * 10 + (d - 48) then Inl ErrRange
      else parseUint s (n * 10 + (d - 48)))"

definition Atoi :: "string \<Rightarrow> goerr + int" where
  "Atoi s0 =
    (let neg = (take 1 s0 = ''-'');
         s = (if take 1 s0 = ''-'' \<or> take 1 s0 = ''+'' then drop 1 s0 else s0)
     in if s = [] then Inl (NumError ''Atoi'' s0 ErrSyntax)
        else
          (case parseUint s 0 of
             Inl e \<Rightarrow> Inl (NumError ''Atoi'' s0 e)
           | Inr un \<Rightarrow>
               if \<not> neg \<and> 2 ^ (intSize - 1) \<le> un then Inl (NumError ''Atoi'' s0 ErrRange)
               else if neg \<and> 2 ^ (intSize - 1) < un then Inl (NumError ''Atoi'' s0 ErrRange)
               else Inr (if neg then - un else un)))"

text \<open>
  \<^verbatim>\<open>net.IPv4(a, b, c, d)\<close> is the 16-byte form with the IPv4-in-IPv6 prefix, and
  \<^verbatim>\<open>IP.To4\<close> gives the 4-byte form of a 4-byte address or of a 16-byte address with
  that prefix, and \<^verbatim>\<open>nil\<close> (the empty slice) otherwise.
\<close>

definition v4InV6Prefix :: "byte list" where
  "v4InV6Prefix = [0, 0, 0, 0, 0, 0, 0, 0, 0, 0, 0xff, 0xff]"

definition IPv4 :: "byte \<Rightarrow> byte \<Rightarrow> byte \<Rightarrow> byte \<Rightarrow> IP" where
  "IPv4 a b c d = v4InV6Prefix @ [a, b, c, d]"

definition To4 :: "IP \<Rightarrow> IP" where
  "To4 ip =
    (if length ip = 4 then ip
     else if length ip = 16 \<and> take 12 ip = v4InV6Prefix then drop 12 ip
     else [])"

text \<open>
  The conversion \<^verbatim>\<open>uint16(port)\<close> keeps the low 16 bits of the \<^verbatim>\<open>int\<close>;
  \<^verbatim>\<open>binary.Write\<close> with \<^verbatim>\<open>binary.BigEndian\<close> writes the high byte first.
\<close>

definition uint16 :: "int \<Rightarrow> 16 word" where
  "uint16 n = word_of_int n"

definition BigEndian_uint16 :: "16 word \<Rightarrow> byte list" where
  "BigEndian_uint16 v = [ucast (drop_bit 8 v), ucast v]"

subsection \<open>The package\<close>

definition isSocks4a :: "socks4 \<Rightarrow> bool" where
  "isSocks4a s = (url_Scheme s = ''socks4a'')"

text \<open>
  \<^verbatim>\<open>parseAddr\<close> returns three values; on either failure they are \<^verbatim>\<open>""\<close>, \<^verbatim>\<open>0\<close> and the
  wrapped \<^verbatim>\<open>ErrWrongAddr\<close>.
\<close>

definition parseAddr :: "string \<Rightarrow> string \<times> int \<times> error option" where
  "parseAddr addr =
    (case SplitHostPort addr of
       Inl err \<Rightarrow> ('''', 0, Some (ErrWrongAddr addr err))
     | Inr (host, port) \<Rightarrow>
         (case Atoi port of
            Inl err \<Rightarrow> ('''', 0, Some (ErrWrongAddr addr err))
          | Inr iport \<Rightarrow> (host, iport, None)))"

definition lookupAddr :: "world \<Rightarrow> string \<Rightarrow> (IP \<times> error option) \<times> event list" where
  "lookupAddr w host =
    (case ResolveIPAddr w ''ip4'' host of
       Inl err \<Rightarrow> (([], Some (ErrHostUnknown host err)), [EvResolve ''ip4'' host])
     | Inr ip \<Rightarrow> ((To4 ip, None), [EvResolve ''ip4'' host]))"

text \<open>
  \<^verbatim>\<open>prepareRequest\<close> binds the error of \<^verbatim>\<open>parseAddr\<close> to \<^verbatim>\<open>err\<close> and goes on without
  reading it; the only test of \<^verbatim>\<open>err\<close> is the one after \<^verbatim>\<open>lookupAddr\<close>, which has
  assigned it anew. The function returns either \<^verbatim>\<open>nil\<close> and an error or the buffer and
  \<^verbatim>\<open>nil\<close>.
\<close>

definition prepareRequest :: "socks4 \<Rightarrow> world \<Rightarrow> string \<Rightarrow> (error + byte list) \<times> event list" where
  "prepareRequest s w addr =
    (case parseAddr addr of
       (host, port, err) \<Rightarrow>
         (let buf0 = [socksVersion, socksConnect] @ BigEndian_uint16 (uint16 port) in
          case (if \<not> isSocks4a s then lookupAddr w host
                else ((IPv4 0 0 0 1, None), []))
          of
            ((ip, Some e), evs) \<Rightarrow> (Inl e, evs)
          | ((ip, None), evs) \<Rightarrow>
              (let buf1 = buf0 @ To4 ip @ bytes_of (Ident w) @ [0];
                   buf2 = (if isSocks4a s then buf1 @ bytes_of host @ [0] else buf1)
               in (Inr buf2, evs))))"

text \<open>The \<^verbatim>\<open>switch resp[1]\<close> at the end of \<^verbatim>\<open>Dial\<close>: the error it returns, if any.\<close>

definition replyStatus :: "byte \<Rightarrow> error option" where
  "replyStatus b =
    (if b = accessGranted then None
     else if b = accessIdentRequired \<or> b = accessIdentFailed then Some ErrIdentRequired
     else if b = accessRejected then Some ErrConnRejected
     else Some (ErrInvalidResponse b))"

text \<open>
  The reply phase of \<^verbatim>\<open>Dial\<close>: one \<^verbatim>\<open>Read\<close> into the zeroed array \<^verbatim>\<open>resp\<close> of 8 bytes.
  The connection can deliver at most 8 bytes into it; \<open>i\<close> is their number.
\<close>

definition readReply :: "conn \<Rightarrow> byte list \<Rightarrow> error option \<times> event list" where
  "readReply c req =
    (case conn_Read c req of
       (bs, rerr) \<Rightarrow>
         (let i = int (length (take 8 bs));
              resp = take 8 (bs @ replicate 8 0)
          in case (if rerr = Some EOF then None else rerr) of
               Some e \<Rightarrow> (Some (ErrIO e), [EvRead])
             | None \<Rightarrow>
                 if i \<noteq> 8 then (Some (ErrIO ErrUnexpectedEOF), [EvRead])
                 else (replyStatus (resp ! 1), [EvRead])))"

text \<open>
  The body of \<^verbatim>\<open>Dial\<close> after the connection is acquired: the error returned, and the
  events. Every \<^verbatim>\<open>return\<close> of this part returns the connection \<^verbatim>\<open>c\<close> as first result.
\<close>

definition handshake :: "socks4 \<Rightarrow> world \<Rightarrow> conn \<Rightarrow> string \<Rightarrow> error option \<times> event list" where
  "handshake s w c addr =
    (case prepareRequest s w addr of
       (Inl err, evs) \<Rightarrow> (Some err, evs)
     | (Inr req, evs) \<Rightarrow>
         (case conn_Write c req of
            (i, Some werr) \<Rightarrow> (Some (ErrIO werr), evs @ [EvWrite req])
          | (i, None) \<Rightarrow>
              if i < minRequestLen then (Some (ErrIO ErrShortWrite), evs @ [EvWrite req])
              else (case readReply c req of
                      (err, evs') \<Rightarrow> (err, evs @ [EvWrite req] @ evs'))))"

text \<open>
  \<^verbatim>\<open>Dial\<close>. The deferred function runs at every return after the connection is
  acquired and calls \<^verbatim>\<open>Close\<close>, discarding its result, when the error result is not
  \<^verbatim>\<open>nil\<close>.
\<close>

definition Dial ::
  "socks4 \<Rightarrow> world \<Rightarrow> string \<Rightarrow> string \<Rightarrow> (conn option \<times> error option) \<times> event list" where
  "Dial s w network addr =
    (if network \<noteq> ''tcp'' \<and> network \<noteq> ''tcp4'' then ((None, Some ErrWrongNetwork), [])
     else
       (case dialer_Dial s network (url_Host s) of
          Inl err \<Rightarrow> ((None, Some (ErrDialFailed err)), [EvDial network (url_Host s)])
        | Inr c \<Rightarrow>
            (case handshake s w c addr of
               (err, evs) \<Rightarrow>
                 ((Some c, err),
                  [EvDial network (url_Host s)] @ evs
                    @ (if err \<noteq> None then [EvClose] else [])))))"

subsection \<open>Example collaborators\<close>

text \<open>
  Concrete collaborators on which the theorems below are instantiated: a proxy that takes
  the whole request and answers with eight bytes carrying a given status, a connection
  with a fixed write count and a fixed answer to \<^verbatim>\<open>Read\<close>, two resolvers, and dialers
  configured for a proxy endpoint.
\<close>

definition proxy_conn :: "byte \<Rightarrow> conn" where
  "proxy_conn status =
    \<lparr>conn_Write = (\<lambda>req. (int (length req), None)),
     conn_Read = (\<lambda>req. ([0, status, 0, 0, 0, 0, 0, 0], None)),
     conn_Close = None\<rparr>"

definition mock_conn :: "int \<Rightarrow> byte list \<Rightarrow> goerr option \<Rightarrow> conn" where
  "mock_conn n bs rerr =
    \<lparr>conn_Write = (\<lambda>req. (n, None)), conn_Read = (\<lambda>req. (bs, rerr)), conn_Close = None\<rparr>"

text \<open>
  A resolver that knows \<^verbatim>\<open>example.com\<close> and, as \<^verbatim>\<open>net.ResolveIPAddr\<close> does, answers the
  empty host name with an address whose \<^verbatim>\<open>IP\<close> is \<^verbatim>\<open>nil\<close> and no error.
\<close>

definition example_world :: world where
  "example_world =
    \<lparr>Ident = ''nobody@0.0.0.0'',
     ResolveIPAddr = (\<lambda>network host.
        if host = ''example.com'' then Inr (IPv4 93 184 216 34)
        else if host = [] then Inr []
        else Inl (OtherError ''no such host''))\<rparr>"

definition example_dialer :: "string \<Rightarrow> conn \<Rightarrow> socks4" where
  "example_dialer scheme c =
    \<lparr>url_Scheme = scheme, url_Host = ''127.0.0.1:1080'',
     dialer_Dial = (\<lambda>network address. Inr c)\<rparr>"

text \<open>
  A resolver that finds no host, and a second configuration that differs from the first
  in the proxy endpoint, in the upstream dialer and in what the resolver answers for other
  hosts.
\<close>

definition offline_world :: world where
  "offline_world =
    \<lparr>Ident = ''nobody@0.0.0.0'',
     ResolveIPAddr = (\<lambda>network host. Inl (OtherError ''no such host''))\<rparr>"

definition other_world :: world where
  "other_world =
    \<lparr>Ident = ''nobody@0.0.0.0'',
     ResolveIPAddr = (\<lambda>network host.
        if host = ''example.com'' then Inr (IPv4 93 184 216 34)
        else Inr (IPv4 10 0 0 1))\<rparr>"

definition other_dialer :: "string \<Rightarrow> socks4" where
  "other_dialer scheme =
    \<lparr>url_Scheme = scheme, url_Host = ''proxy.example.net:9050'',
     dialer_Dial = (\<lambda>network address. Inl (OtherError ''connection refused''))\<rparr>"

section \<open>Properties\<close>

subsection \<open>Evaluation of the examples\<close>

lemma example_dialer_simps:
  "url_Scheme (example_dialer scheme c) = scheme"
  "url_Host (example_dialer scheme c) = ''127.0.0.1:1080''"
  "dialer_Dial (example_dialer scheme c) network address = Inr c"
  by (simp_all add: example_dialer_def)

lemma proxy_conn_simps:
  "conn_Write (proxy_conn status) req = (int (length req), None)"
  "conn_Read (proxy_conn status) req = ([0, status, 0, 0, 0, 0, 0, 0], None)"
  by (simp_all add: proxy_conn_def)

lemma mock_conn_simps:
  "conn_Write (mock_conn n bs rerr) req = (n, None)"
  "conn_Read (mock_conn n bs rerr) req = (bs, rerr)"
  by (simp_all add: mock_conn_def)

lemma example_world_simps:
  "Ident example_world = ''nobody@0.0.0.0''"
  "ResolveIPAddr example_world network ''example.com'' = Inr (IPv4 93 184 216 34)"
  "ResolveIPAddr example_world network [] = Inr []"
  by (simp_all add: example_world_def)

lemma parseAddr_example: "parseAddr ''example.com:80'' = (''example.com'', 80, None)"
  by (simp add: parseAddr_def SplitHostPort_def Atoi_def slice_def intSize_def)

lemma parseAddr_bracketed: "parseAddr ''[example.com]:+080'' = (''example.com'', 80, None)"
  by (simp add: parseAddr_def SplitHostPort_def Atoi_def slice_def intSize_def)

lemma BigEndian_uint16_80: "BigEndian_uint16 (uint16 80) = [0, 80]"
  by (simp add: BigEndian_uint16_def uint16_def)

lemma To4_IPv4: "To4 (IPv4 a b c d) = [a, b, c, d]"
  by (simp add: To4_def IPv4_def v4InV6Prefix_def)

lemma To4_quad: "To4 [a, b, c, d] = [a, b, c, d]"
  by (simp add: To4_def)

lemma prepareRequest_example_socks4a:
  "prepareRequest (example_dialer ''socks4a'' c) example_world ''example.com:80'' =
     (Inr ([4, 1, 0, 80, 0, 0, 0, 1] @ bytes_of ''nobody@0.0.0.0'' @ [0]
            @ bytes_of ''example.com'' @ [0]), [])"
  by (simp add: prepareRequest_def parseAddr_example BigEndian_uint16_80 To4_IPv4
      isSocks4a_def example_dialer_simps example_world_simps socksVersion_def socksConnect_def)

lemma prepareRequest_example_socks4:
  "prepareRequest (example_dialer ''socks4'' c) example_world ''example.com:80'' =
     (Inr ([4, 1, 0, 80, 93, 184, 216, 34] @ bytes_of ''nobody@0.0.0.0'' @ [0]),
      [EvResolve ''ip4'' ''example.com''])"
  by (simp add: prepareRequest_def parseAddr_example BigEndian_uint16_80 To4_IPv4 To4_quad
      lookupAddr_def isSocks4a_def example_dialer_simps example_world_simps
      socksVersion_def socksConnect_def)

subsection \<open>The phases of \<^verbatim>\<open>Dial\<close>\<close>

lemma readReply_full:
  assumes "conn_Read c req = ([b0, b1, b2, b3, b4, b5, b6, b7], rerr)"
    and "rerr = None \<or> rerr = Some EOF"
  shows "readReply c req = (replyStatus b1, [EvRead])"
  using assms by (auto simp add: readReply_def)

lemma readReply_short:
  assumes "conn_Read c req = (bs, rerr)" and "length bs < 8"
  shows "readReply c req =
    (Some (ErrIO (case rerr of None \<Rightarrow> ErrUnexpectedEOF
                  | Some e \<Rightarrow> if e = EOF then ErrUnexpectedEOF else e)), [EvRead])"
  using assms by (auto simp add: readReply_def split: option.splits)

lemma readReply_events: "snd (readReply c req) = [EvRead]"
  by (auto simp add: readReply_def Let_def split: prod.splits option.splits)

lemma prepareRequest_events:
  "snd (prepareRequest s w addr) =
     (if isSocks4a s then [] else [EvResolve ''ip4'' (fst (parseAddr addr))])"
  by (auto simp add: prepareRequest_def lookupAddr_def Let_def
      split: prod.splits sum.splits option.splits)

lemma Dial_after_write:
  assumes "network = ''tcp'' \<or> network = ''tcp4''"
    and "dialer_Dial s network (url_Host s) = Inr c"
    and "prepareRequest s w addr = (Inr req, evs)"
    and "conn_Write c req = (n, None)"
    and "minRequestLen \<le> n"
  shows "Dial s w network addr =
    ((Some c, fst (readReply c req)),
     [EvDial network (url_Host s)] @ evs @ [EvWrite req] @ snd (readReply c req)
       @ (if fst (readReply c req) \<noteq> None then [EvClose] else []))"
  using assms by (auto simp add: Dial_def handshake_def split: prod.splits)

lemma handshake_no_close: "EvClose \<notin> set (snd (handshake s w c addr))"
proof -
  have p: "EvClose \<notin> set (snd (prepareRequest s w addr))"
    by (simp add: prepareRequest_events)
  have r: "\<And>req. EvClose \<notin> set (snd (readReply c req))"
    by (simp add: readReply_events)
  show ?thesis
    using p r
    by (auto simp add: handshake_def split: prod.splits sum.splits option.splits)
       (metis snd_conv)+
qed

lemma handshake_success:
  assumes "fst (handshake s w c addr) = None"
  shows "\<exists>req. fst (prepareRequest s w addr) = Inr req
           \<and> snd (handshake s w c addr) = snd (prepareRequest s w addr) @ [EvWrite req, EvRead]
           \<and> 8 \<le> length (fst (conn_Read c req))
           \<and> fst (conn_Read c req) ! 1 = 0x5a"
  using assms
  by (auto simp add: handshake_def readReply_def replyStatus_def Let_def accessGranted_def
      nth_append
      split: prod.splits sum.splits option.splits if_splits)

subsection \<open>The port field\<close>

lemma BigEndian_uint16_bytes:
  "map uint (BigEndian_uint16 (uint16 n)) = [n mod 65536 div 256, n mod 256]"
proof -
  have hi: "uint (ucast (drop_bit 8 (word_of_int n :: 16 word)) :: 8 word) = n mod 65536 div 256"
  proof -
    have "uint (ucast (drop_bit 8 (word_of_int n :: 16 word)) :: 8 word)
        = take_bit 8 (drop_bit 8 (take_bit 16 n))"
      by (simp add: unsigned_ucast_eq unsigned_drop_bit_eq uint_word_of_int_eq)
    also have "\<dots> = (n mod 65536 div 256) mod 256"
      by (simp add: take_bit_eq_mod drop_bit_eq_div)
    also have "\<dots> = n mod 65536 div 256"
      by simp
    finally show ?thesis .
  qed
  have lo: "uint (ucast (word_of_int n :: 16 word) :: 8 word) = n mod 256"
  proof -
    have "uint (ucast (word_of_int n :: 16 word) :: 8 word) = take_bit 8 (take_bit 16 n)"
      by (simp add: unsigned_ucast_eq uint_word_of_int_eq)
    also have "\<dots> = n mod 256"
      by (simp add: take_bit_eq_mod mod_mod_cancel)
    finally show ?thesis .
  qed
  show ?thesis
    by (simp add: BigEndian_uint16_def uint16_def hi lo)
qed

lemma prepareRequest_header:
  assumes "parseAddr addr = (host, n, err)"
    and "fst (prepareRequest s w addr) = Inr req"
  shows "map uint (take 4 req) = [4, 1, n mod 65536 div 256, n mod 256]"
proof -
  obtain rest where "req = [socksVersion, socksConnect] @ BigEndian_uint16 (uint16 n) @ rest"
    using assms
    by (auto simp add: prepareRequest_def Let_def
        split: prod.splits sum.splits option.splits if_splits)
  moreover have "length (BigEndian_uint16 (uint16 n)) = 2"
    by (simp add: BigEndian_uint16_def)
  ultimately have "take 4 req = [socksVersion, socksConnect] @ BigEndian_uint16 (uint16 n)"
    by simp
  then show ?thesis
    using BigEndian_uint16_bytes [of n] by (simp add: socksVersion_def socksConnect_def)
qed

subsection \<open>The errors \<^verbatim>\<open>Dial\<close> can return\<close>

text \<open>
  \<^verbatim>\<open>prepareRequest\<close> fails only with \<^verbatim>\<open>ErrHostUnknown\<close>, and no return of \<^verbatim>\<open>Dial\<close> carries
  \<^verbatim>\<open>ErrWrongAddr\<close>, for any configuration and any address.
\<close>

lemma prepareRequest_error:
  assumes "fst (prepareRequest s w addr) = Inl e"
  shows "\<exists>host cause. e = ErrHostUnknown host cause"
  using assms
  by (auto simp add: prepareRequest_def lookupAddr_def Let_def
      split: prod.splits sum.splits option.splits if_splits)

lemma replyStatus_not_WrongAddr: "replyStatus b \<noteq> Some (ErrWrongAddr a e)"
  by (simp add: replyStatus_def)

lemma readReply_not_WrongAddr: "fst (readReply c req) \<noteq> Some (ErrWrongAddr a e)"
  by (auto simp add: readReply_def Let_def replyStatus_not_WrongAddr
      split: prod.splits option.splits if_splits)

lemma handshake_not_WrongAddr: "fst (handshake s w c addr) \<noteq> Some (ErrWrongAddr a e)"
proof (cases "prepareRequest s w addr")
  case (Pair r evs)
  show ?thesis
  proof (cases r)
    case (Inl err)
    then have "fst (prepareRequest s w addr) = Inl err" using Pair by simp
    from prepareRequest_error [OF this] show ?thesis
      using Pair Inl by (auto simp add: handshake_def)
  next
    case (Inr req)
    then show ?thesis
      using Pair readReply_not_WrongAddr [of c req a e]
      by (auto simp add: handshake_def split: prod.splits option.splits if_splits)
  qed
qed

lemma Dial_not_WrongAddr: "snd (fst (Dial s w network addr)) \<noteq> Some (ErrWrongAddr a e)"
proof (cases "network \<noteq> ''tcp'' \<and> network \<noteq> ''tcp4''")
  case True
  then show ?thesis by (simp add: Dial_def)
next
  case False
  show ?thesis
  proof (cases "dialer_Dial s network (url_Host s)")
    case (Inl err)
    with False show ?thesis by (auto simp add: Dial_def)
  next
    case (Inr c)
    with False handshake_not_WrongAddr [of s w c addr a e] show ?thesis
      by (auto simp add: Dial_def split: prod.splits)
  qed
qed

subsection \<open>The network argument\<close>

text \<open>
  Claim C5. For every \<^verbatim>\<open>network\<close> other than \<^verbatim>\<open>"tcp"\<close> and \<^verbatim>\<open>"tcp4"\<close>, \<^verbatim>\<open>Dial\<close> returns
  no connection and \<^verbatim>\<open>ErrWrongNetwork\<close>, and the event list is empty: the upstream dialer
  is not called and nothing is written, read or resolved.
\<close>

theorem Dial_wrong_network:
  assumes "network \<noteq> ''tcp''" and "network \<noteq> ''tcp4''"
  shows "Dial s w network addr = ((None, Some ErrWrongNetwork), [])"
  using assms by (simp add: Dial_def)

theorem Dial_wrong_network_witness:
  "''udp'' \<noteq> ''tcp'' \<and> ''udp'' \<noteq> ''tcp4'' \<and>
   Dial (example_dialer ''socks4'' (proxy_conn 0x5a)) example_world ''udp'' ''example.com:80''
     = ((None, Some ErrWrongNetwork), [])"
  using Dial_wrong_network [of "''udp''" "example_dialer ''socks4'' (proxy_conn 0x5a)"
      example_world "''example.com:80''"]
  by simp

subsection \<open>The reply\<close>

text \<open>
  Claim C4. When the request was built and written and the read delivers eight bytes
  (with no error, or with \<^verbatim>\<open>io.EOF\<close>), the result of \<^verbatim>\<open>Dial\<close> is a function of the second
  byte alone: \<open>0x5a\<close> returns the connection with no error and without closing it,
  \<open>0x5b\<close> returns \<^verbatim>\<open>ErrConnRejected\<close>, \<open>0x5c\<close> and \<open>0x5d\<close> return \<^verbatim>\<open>ErrIdentRequired\<close>, and any
  other value returns \<^verbatim>\<open>ErrInvalidResponse\<close> carrying that byte. The other seven bytes do
  not occur in the result.
\<close>

theorem Dial_reply_status:
  assumes "network = ''tcp'' \<or> network = ''tcp4''"
    and "dialer_Dial s network (url_Host s) = Inr c"
    and "prepareRequest s w addr = (Inr req, evs)"
    and "conn_Write c req = (n, None)"
    and "minRequestLen \<le> n"
    and "conn_Read c req = ([b0, b1, b2, b3, b4, b5, b6, b7], rerr)"
    and "rerr = None \<or> rerr = Some EOF"
  shows "Dial s w network addr =
    (if b1 = 0x5a then
       ((Some c, None), [EvDial network (url_Host s)] @ evs @ [EvWrite req, EvRead])
     else
       ((Some c,
         Some (if b1 = 0x5b then ErrConnRejected
               else if b1 = 0x5c \<or> b1 = 0x5d then ErrIdentRequired
               else ErrInvalidResponse b1)),
        [EvDial network (url_Host s)] @ evs @ [EvWrite req, EvRead, EvClose]))"
proof -
  have "readReply c req = (replyStatus b1, [EvRead])"
    using assms(6,7) by (rule readReply_full)
  then show ?thesis
    using Dial_after_write [OF assms(1-5)]
    by (simp add: replyStatus_def accessGranted_def accessRejected_def
        accessIdentRequired_def accessIdentFailed_def)
qed

theorem Dial_reply_status_witness:
  "Dial (example_dialer ''socks4a'' (proxy_conn 0x99)) example_world ''tcp'' ''example.com:80'' =
    ((Some (proxy_conn 0x99), Some (ErrInvalidResponse 0x99)),
     [EvDial ''tcp'' ''127.0.0.1:1080'',
      EvWrite ([4, 1, 0, 80, 0, 0, 0, 1] @ bytes_of ''nobody@0.0.0.0'' @ [0]
                 @ bytes_of ''example.com'' @ [0]),
      EvRead, EvClose])"
  using Dial_reply_status [of "''tcp''" "example_dialer ''socks4a'' (proxy_conn 0x99)"
      "proxy_conn 0x99" example_world "''example.com:80''"
      "[4, 1, 0, 80, 0, 0, 0, 1] @ bytes_of ''nobody@0.0.0.0'' @ [0] @ bytes_of ''example.com'' @ [0]"
      "[]" 35 0 "0x99" 0 0 0 0 0 0 None]
  by (simp add: prepareRequest_example_socks4a minRequestLen_def example_dialer_simps
      proxy_conn_simps bytes_of_def)

text \<open>
  Claim C7. When the request was built and written and the read delivers fewer than eight
  bytes (none at all included), \<^verbatim>\<open>Dial\<close> returns \<^verbatim>\<open>ErrIO\<close> and closes the connection. The
  cause wrapped is \<^verbatim>\<open>io.ErrUnexpectedEOF\<close> when the read reported no error or \<^verbatim>\<open>io.EOF\<close>,
  and the read's own error otherwise. The bytes delivered do not occur in the result, so no
  status is taken from them.
\<close>

theorem Dial_short_reply:
  assumes "network = ''tcp'' \<or> network = ''tcp4''"
    and "dialer_Dial s network (url_Host s) = Inr c"
    and "prepareRequest s w addr = (Inr req, evs)"
    and "conn_Write c req = (n, None)"
    and "minRequestLen \<le> n"
    and "conn_Read c req = (bs, rerr)"
    and "length bs < 8"
  shows "Dial s w network addr =
    ((Some c,
      Some (ErrIO (case rerr of None \<Rightarrow> ErrUnexpectedEOF
                   | Some e \<Rightarrow> if e = EOF then ErrUnexpectedEOF else e))),
     [EvDial network (url_Host s)] @ evs @ [EvWrite req, EvRead, EvClose])"
  using Dial_after_write [OF assms(1-5)] readReply_short [OF assms(6,7)]
  by simp

theorem Dial_short_reply_witness:
  "Dial (example_dialer ''socks4a'' (mock_conn 35 [0, 0x5a] (Some EOF))) example_world
      ''tcp'' ''example.com:80'' =
    ((Some (mock_conn 35 [0, 0x5a] (Some EOF)), Some (ErrIO ErrUnexpectedEOF)),
     [EvDial ''tcp'' ''127.0.0.1:1080'',
      EvWrite ([4, 1, 0, 80, 0, 0, 0, 1] @ bytes_of ''nobody@0.0.0.0'' @ [0]
                 @ bytes_of ''example.com'' @ [0]),
      EvRead, EvClose])"
  using Dial_short_reply [of "''tcp''" "example_dialer ''socks4a'' (mock_conn 35 [0, 0x5a] (Some EOF))"
      "mock_conn 35 [0, 0x5a] (Some EOF)" example_world "''example.com:80''"
      "[4, 1, 0, 80, 0, 0, 0, 1] @ bytes_of ''nobody@0.0.0.0'' @ [0] @ bytes_of ''example.com'' @ [0]"
      "[]" 35 "[0, 0x5a]" "Some EOF"]
  by (simp add: prepareRequest_example_socks4a minRequestLen_def example_dialer_simps
      mock_conn_simps)

subsection \<open>Closing the connection\<close>

text \<open>
  Claim C8. Whenever the upstream dialer has returned a connection, \<^verbatim>\<open>Dial\<close> returns that
  connection as its first result. If the error result is not \<^verbatim>\<open>nil\<close>, \<^verbatim>\<open>Close\<close> is the last
  event and occurs once. If the error result is \<^verbatim>\<open>nil\<close>, \<^verbatim>\<open>Close\<close> does not occur, and
  the proxy answered the request with at least eight bytes whose second byte is \<open>0x5a\<close>.
\<close>

theorem Dial_close_iff_error:
  assumes "network = ''tcp'' \<or> network = ''tcp4''"
    and "dialer_Dial s network (url_Host s) = Inr c"
  shows "fst (fst (Dial s w network addr)) = Some c
    \<and> (snd (fst (Dial s w network addr)) \<noteq> None \<longrightarrow>
         (\<exists>evs. snd (Dial s w network addr) = evs @ [EvClose] \<and> EvClose \<notin> set evs))
    \<and> (snd (fst (Dial s w network addr)) = None \<longrightarrow>
         EvClose \<notin> set (snd (Dial s w network addr))
         \<and> (\<exists>req. fst (prepareRequest s w addr) = Inr req
               \<and> 8 \<le> length (fst (conn_Read c req))
               \<and> fst (conn_Read c req) ! 1 = 0x5a))"
proof -
  obtain err evs where h: "handshake s w c addr = (err, evs)"
    by (cases "handshake s w c addr")
  have nc: "EvClose \<notin> set evs"
    using handshake_no_close [of s w c addr] h by simp
  have d: "Dial s w network addr =
      ((Some c, err), [EvDial network (url_Host s)] @ evs @ (if err \<noteq> None then [EvClose] else []))"
    using assms h by (auto simp add: Dial_def)
  have a: "fst (fst (Dial s w network addr)) = Some c"
    using d by simp
  have b: "\<exists>evs'. snd (Dial s w network addr) = evs' @ [EvClose] \<and> EvClose \<notin> set evs'"
    if "snd (fst (Dial s w network addr)) \<noteq> None"
  proof -
    from that d have "snd (Dial s w network addr) = ([EvDial network (url_Host s)] @ evs) @ [EvClose]"
      by simp
    moreover have "EvClose \<notin> set ([EvDial network (url_Host s)] @ evs)"
      using nc by simp
    ultimately show ?thesis by blast
  qed
  have c: "EvClose \<notin> set (snd (Dial s w network addr))
      \<and> (\<exists>req. fst (prepareRequest s w addr) = Inr req
            \<and> 8 \<le> length (fst (conn_Read c req))
            \<and> fst (conn_Read c req) ! 1 = 0x5a)"
    if "snd (fst (Dial s w network addr)) = None"
  proof -
    from that d have e: "err = None" by simp
    then have "fst (handshake s w c addr) = None" using h by simp
    from handshake_success [OF this] show ?thesis
      using d e nc by auto
  qed
  from a b c show ?thesis by blast
qed

theorem Dial_close_iff_error_witness:
  "snd (fst (Dial (example_dialer ''socks4'' (proxy_conn 0x5b)) example_world ''tcp4''
                ''example.com:80'')) \<noteq> None
   \<and> (\<exists>evs. snd (Dial (example_dialer ''socks4'' (proxy_conn 0x5b)) example_world ''tcp4''
                ''example.com:80'') = evs @ [EvClose] \<and> EvClose \<notin> set evs)"
proof -
  have "snd (fst (Dial (example_dialer ''socks4'' (proxy_conn 0x5b)) example_world ''tcp4''
                ''example.com:80'')) = Some ErrConnRejected"
    by (simp add: Dial_def handshake_def prepareRequest_example_socks4 readReply_def
        replyStatus_def accessGranted_def accessRejected_def accessIdentRequired_def
        accessIdentFailed_def minRequestLen_def example_dialer_simps proxy_conn_simps)
  then show ?thesis
    using Dial_close_iff_error [of "''tcp4''" "example_dialer ''socks4'' (proxy_conn 0x5b)"
      "proxy_conn 0x5b" example_world "''example.com:80''"]
    by (simp add: example_dialer_simps)
qed

subsection \<open>The write count\<close>

text \<open>
  Claim C10. When \<^verbatim>\<open>Write\<close> reports no error and a count of at least 8, \<^verbatim>\<open>Dial\<close> goes on
  to read the reply, whatever the length of the request, and its result is that of the
  reply phase; the error for a short write, \<^verbatim>\<open>ErrIO\<close> wrapping \<^verbatim>\<open>io.ErrShortWrite\<close>, is
  returned (without a read) when the count is below 8.
\<close>

theorem Dial_write_count:
  assumes "network = ''tcp'' \<or> network = ''tcp4''"
    and "dialer_Dial s network (url_Host s) = Inr c"
    and "prepareRequest s w addr = (Inr req, evs)"
    and "conn_Write c req = (n, None)"
  shows "(8 \<le> n \<longrightarrow>
            Dial s w network addr =
              ((Some c, fst (readReply c req)),
               [EvDial network (url_Host s)] @ evs @ [EvWrite req, EvRead]
                 @ (if fst (readReply c req) \<noteq> None then [EvClose] else [])))
       \<and> (n < 8 \<longrightarrow>
            Dial s w network addr =
              ((Some c, Some (ErrIO ErrShortWrite)),
               [EvDial network (url_Host s)] @ evs @ [EvWrite req, EvClose]))"
proof (intro conjI impI)
  assume "8 \<le> n"
  then have "minRequestLen \<le> n" by (simp add: minRequestLen_def)
  from Dial_after_write [OF assms(1-4) this]
  show "Dial s w network addr =
      ((Some c, fst (readReply c req)),
       [EvDial network (url_Host s)] @ evs @ [EvWrite req, EvRead]
         @ (if fst (readReply c req) \<noteq> None then [EvClose] else []))"
    by (simp add: readReply_events)
next
  assume "n < 8"
  then show "Dial s w network addr =
      ((Some c, Some (ErrIO ErrShortWrite)),
       [EvDial network (url_Host s)] @ evs @ [EvWrite req, EvClose])"
    using assms by (auto simp add: Dial_def handshake_def minRequestLen_def)
qed

theorem Dial_write_count_witness:
  "(8 :: int) < int (length ([4, 1, 0, 80, 0, 0, 0, 1] @ bytes_of ''nobody@0.0.0.0'' @ [0]
                 @ bytes_of ''example.com'' @ [0]))
   \<and> Dial (example_dialer ''socks4a'' (mock_conn 8 [0, 0x5a, 0, 0, 0, 0, 0, 0] None))
        example_world ''tcp'' ''example.com:80'' =
      ((Some (mock_conn 8 [0, 0x5a, 0, 0, 0, 0, 0, 0] None), None),
       [EvDial ''tcp'' ''127.0.0.1:1080'',
        EvWrite ([4, 1, 0, 80, 0, 0, 0, 1] @ bytes_of ''nobody@0.0.0.0'' @ [0]
                 @ bytes_of ''example.com'' @ [0]),
        EvRead])"
  using Dial_write_count [of "''tcp''"
      "example_dialer ''socks4a'' (mock_conn 8 [0, 0x5a, 0, 0, 0, 0, 0, 0] None)"
      "mock_conn 8 [0, 0x5a, 0, 0, 0, 0, 0, 0] None" example_world "''example.com:80''"
      "[4, 1, 0, 80, 0, 0, 0, 1] @ bytes_of ''nobody@0.0.0.0'' @ [0] @ bytes_of ''example.com'' @ [0]"
      "[]" 8]
  by (simp add: prepareRequest_example_socks4a example_dialer_simps mock_conn_simps
      readReply_def replyStatus_def accessGranted_def bytes_of_def)

subsection \<open>The request\<close>

text \<open>
  Claim C6. For an address that \<^verbatim>\<open>parseAddr\<close> accepts: in socks4a mode the resolver is
  not called, the four bytes after the port are \<open>0, 0, 0, 1\<close>, and \<^verbatim>\<open>Ident\<close>, a zero byte,
  the host name and a zero byte follow; in socks4 mode the resolver is called once for the
  host, the four bytes after the port are the IPv4 address it returned, \<^verbatim>\<open>Ident\<close> and a
  zero byte follow, and the request ends there.
\<close>

theorem prepareRequest_layout:
  assumes "parseAddr addr = (host, port, None)"
  shows "(isSocks4a s \<longrightarrow>
            prepareRequest s w addr =
              (Inr ([0x04, 0x01] @ BigEndian_uint16 (uint16 port) @ [0, 0, 0, 1]
                     @ bytes_of (Ident w) @ [0] @ bytes_of host @ [0]), []))
       \<and> (\<not> isSocks4a s \<longrightarrow>
            (\<forall>ip. ResolveIPAddr w ''ip4'' host = Inr ip \<longrightarrow> length (To4 ip) = 4 \<longrightarrow>
               prepareRequest s w addr =
                 (Inr ([0x04, 0x01] @ BigEndian_uint16 (uint16 port) @ To4 ip
                        @ bytes_of (Ident w) @ [0]), [EvResolve ''ip4'' host])))"
proof -
  have fixed: "To4 (To4 ip) = To4 ip" if "length (To4 ip) = 4" for ip
    using that by (simp add: To4_def [of "To4 ip"])
  show ?thesis
    using assms
    by (auto simp add: prepareRequest_def lookupAddr_def To4_IPv4 To4_quad socksVersion_def
        socksConnect_def fixed)
qed

theorem prepareRequest_layout_witness:
  "prepareRequest (example_dialer ''socks4a'' (proxy_conn 0x5a)) example_world ''example.com:80'' =
     (Inr ([4, 1, 0, 80, 0, 0, 0, 1] @ bytes_of ''nobody@0.0.0.0'' @ [0]
            @ bytes_of ''example.com'' @ [0]), [])
   \<and> prepareRequest (example_dialer ''socks4'' (proxy_conn 0x5a)) example_world ''example.com:80'' =
     (Inr ([4, 1, 0, 80, 93, 184, 216, 34] @ bytes_of ''nobody@0.0.0.0'' @ [0]),
      [EvResolve ''ip4'' ''example.com''])"
  using prepareRequest_layout [OF parseAddr_example, of "example_dialer ''socks4a'' (proxy_conn 0x5a)" example_world]
    prepareRequest_layout [OF parseAddr_example, of "example_dialer ''socks4'' (proxy_conn 0x5a)" example_world]
  by (simp add: isSocks4a_def example_dialer_simps example_world_simps To4_IPv4
      BigEndian_uint16_80)

text \<open>
  Claim C9. The request is a function of the scheme, the host and port that \<^verbatim>\<open>parseAddr\<close>
  yields, \<^verbatim>\<open>Ident\<close> and, in socks4 mode, the resolver's answer for that host: two
  configurations that agree on these build the same request, whatever else differs
  between them (proxy endpoint, upstream dialer, spelling of the address, answers of the
  resolver for other hosts).
\<close>

theorem prepareRequest_deterministic:
  assumes "url_Scheme s1 = url_Scheme s2"
    and "Ident w1 = Ident w2"
    and "parseAddr a1 = (host, port, e1)"
    and "parseAddr a2 = (host, port, e2)"
    and "isSocks4a s1 \<or> ResolveIPAddr w1 ''ip4'' host = ResolveIPAddr w2 ''ip4'' host"
  shows "prepareRequest s1 w1 a1 = prepareRequest s2 w2 a2"
  using assms
  by (auto simp add: prepareRequest_def lookupAddr_def isSocks4a_def)

theorem prepareRequest_deterministic_witness:
  "prepareRequest (example_dialer ''socks4'' (proxy_conn 0x5a)) example_world ''example.com:80''
     = prepareRequest (other_dialer ''socks4'') other_world ''[example.com]:+080''"
  using prepareRequest_deterministic [of "example_dialer ''socks4'' (proxy_conn 0x5a)"
      "other_dialer ''socks4''" example_world other_world "''example.com:80''"
      "''example.com''" 80 None "''[example.com]:+080''" None]
  by (simp add: parseAddr_example parseAddr_bracketed example_dialer_simps example_world_simps
      other_dialer_def other_world_def)

subsection \<open>The target address\<close>

text \<open>
  Claim C2, as the code has it. The claim as stated fails: the port \<open>70000\<close> parses as an
  integer outside \<open>1..65535\<close>, and \<^verbatim>\<open>Dial\<close> returns the open connection and no error,
  having sent the port bytes \<open>0x11, 0x70\<close> (that is 4464).
\<close>

theorem Dial_port_70000_accepted:
  "Atoi ''70000'' = Inr 70000
   \<and> (65535 :: int) < 70000
   \<and> Dial (example_dialer ''socks4a'' (proxy_conn 0x5a)) example_world ''tcp''
        ''example.com:70000'' =
      ((Some (proxy_conn 0x5a), None),
       [EvDial ''tcp'' ''127.0.0.1:1080'',
        EvWrite ([4, 1, 0x11, 0x70, 0, 0, 0, 1] @ bytes_of ''nobody@0.0.0.0'' @ [0]
                   @ bytes_of ''example.com'' @ [0]),
        EvRead])"
proof -
  have a: "Atoi ''70000'' = Inr 70000"
    by (simp add: Atoi_def intSize_def)
  have p: "parseAddr ''example.com:70000'' = (''example.com'', 70000, None)"
    by (simp add: parseAddr_def SplitHostPort_def a slice_def)
  have b: "BigEndian_uint16 (uint16 70000) = [0x11, 0x70]"
    by (simp add: BigEndian_uint16_def uint16_def)
  have r: "prepareRequest (example_dialer ''socks4a'' (proxy_conn 0x5a)) example_world
        ''example.com:70000'' =
      (Inr ([4, 1, 0x11, 0x70, 0, 0, 0, 1] @ bytes_of ''nobody@0.0.0.0'' @ [0]
             @ bytes_of ''example.com'' @ [0]), [])"
    by (simp add: prepareRequest_def p b To4_IPv4 isSocks4a_def example_dialer_simps
        example_world_simps socksVersion_def socksConnect_def)
  show ?thesis
    by (simp add: a Dial_def handshake_def r readReply_def replyStatus_def accessGranted_def
        minRequestLen_def example_dialer_simps proxy_conn_simps)
qed

text \<open>
  Claim C2, amended. For every address whose port component \<^verbatim>\<open>strconv.Atoi\<close> accepts,
  whatever its range, \<^verbatim>\<open>parseAddr\<close> returns the host and that integer with no error,
  \<^verbatim>\<open>Dial\<close> does not return \<^verbatim>\<open>ErrWrongAddr\<close>, and every request built starts with
  \<open>4, 1\<close> and the port reduced modulo 65536, high byte first.
\<close>

theorem parseAddr_port_unchecked:
  assumes "SplitHostPort addr = Inr (host, port)"
    and "Atoi port = Inr n"
  shows "parseAddr addr = (host, n, None)
    \<and> (\<forall>a e. snd (fst (Dial s w network addr)) \<noteq> Some (ErrWrongAddr a e))
    \<and> (\<forall>req. fst (prepareRequest s w addr) = Inr req \<longrightarrow>
          map uint (take 4 req) = [4, 1, n mod 65536 div 256, n mod 256])"
proof -
  have p: "parseAddr addr = (host, n, None)"
    using assms by (simp add: parseAddr_def)
  show ?thesis
    using p prepareRequest_header [OF p] Dial_not_WrongAddr by blast
qed

theorem parseAddr_port_unchecked_witness:
  "SplitHostPort ''example.com:-1'' = Inr (''example.com'', ''-1'')
   \<and> Atoi ''-1'' = Inr (- 1)
   \<and> parseAddr ''example.com:-1'' = (''example.com'', - 1, None)
   \<and> fst (prepareRequest (example_dialer ''socks4a'' (proxy_conn 0x5a)) example_world
            ''example.com:-1'') =
       Inr ([4, 1, 0xff, 0xff, 0, 0, 0, 1] @ bytes_of ''nobody@0.0.0.0'' @ [0]
             @ bytes_of ''example.com'' @ [0])
   \<and> map uint (take 4 ([4, 1, 0xff, 0xff, 0, 0, 0, 1] @ bytes_of ''nobody@0.0.0.0'' @ [0]
             @ bytes_of ''example.com'' @ [0])) = [4, 1, 255, 255]"
proof -
  have h1: "SplitHostPort ''example.com:-1'' = Inr (''example.com'', ''-1'')"
    by (simp add: SplitHostPort_def slice_def)
  have h2: "Atoi ''-1'' = Inr (- 1)"
    by (simp add: Atoi_def intSize_def)
  note t = parseAddr_port_unchecked [OF h1 h2,
      of "example_dialer ''socks4a'' (proxy_conn 0x5a)" example_world "''tcp''"]
  have b: "BigEndian_uint16 (uint16 (- 1)) = [0xff, 0xff]"
    by code_simp
  have r: "fst (prepareRequest (example_dialer ''socks4a'' (proxy_conn 0x5a)) example_world
        ''example.com:-1'') =
      Inr ([4, 1, 0xff, 0xff, 0, 0, 0, 1] @ bytes_of ''nobody@0.0.0.0'' @ [0]
             @ bytes_of ''example.com'' @ [0])"
    using t by (simp add: prepareRequest_def b To4_IPv4 isSocks4a_def example_dialer_simps
        example_world_simps socksVersion_def socksConnect_def)
  from t r have "map uint (take 4 ([4, 1, 0xff, 0xff, 0, 0, 0, 1] @ bytes_of ''nobody@0.0.0.0'' @ [0]
             @ bytes_of ''example.com'' @ [0])) = [4, 1, (- 1) mod 65536 div 256, (- 1) mod 256]"
    by blast
  then show ?thesis
    using h1 h2 t r by simp
qed

text \<open>
  Claim C1, evaluated on the address \<^verbatim>\<open>example.com\<close>, which has no port. \<^verbatim>\<open>parseAddr\<close>
  reports \<^verbatim>\<open>ErrWrongAddr\<close> naming the address; \<^verbatim>\<open>Dial\<close> nevertheless sends a request
  for the empty host and port 0 and, the proxy granting it, returns the open connection
  and no error, in socks4a mode and in socks4 mode alike.
\<close>

theorem Dial_missing_port_not_reported:
  "parseAddr ''example.com'' =
      ('''', 0, Some (ErrWrongAddr ''example.com''
                  (AddrError ''missing port in address'' ''example.com'')))
   \<and> Dial (example_dialer ''socks4a'' (proxy_conn 0x5a)) example_world ''tcp'' ''example.com'' =
      ((Some (proxy_conn 0x5a), None),
       [EvDial ''tcp'' ''127.0.0.1:1080'',
        EvWrite ([4, 1, 0, 0, 0, 0, 0, 1] @ bytes_of ''nobody@0.0.0.0'' @ [0, 0]),
        EvRead])
   \<and> Dial (example_dialer ''socks4'' (proxy_conn 0x5a)) example_world ''tcp'' ''example.com'' =
      ((Some (proxy_conn 0x5a), None),
       [EvDial ''tcp'' ''127.0.0.1:1080'',
        EvResolve ''ip4'' [],
        EvWrite ([4, 1, 0, 0] @ bytes_of ''nobody@0.0.0.0'' @ [0]),
        EvRead])"
proof -
  have p: "parseAddr ''example.com'' =
      ('''', 0, Some (ErrWrongAddr ''example.com''
                  (AddrError ''missing port in address'' ''example.com'')))"
    by (simp add: parseAddr_def SplitHostPort_def missingPort_def)
  have b: "BigEndian_uint16 (uint16 0) = [0, 0]"
    by (simp add: BigEndian_uint16_def uint16_def)
  have r4a: "prepareRequest (example_dialer ''socks4a'' (proxy_conn 0x5a)) example_world
        ''example.com'' =
      (Inr ([4, 1, 0, 0, 0, 0, 0, 1] @ bytes_of ''nobody@0.0.0.0'' @ [0, 0]), [])"
    by (simp add: prepareRequest_def p b To4_IPv4 isSocks4a_def example_dialer_simps
        example_world_simps socksVersion_def socksConnect_def bytes_of_def)
  have r4: "prepareRequest (example_dialer ''socks4'' (proxy_conn 0x5a)) example_world
        ''example.com'' =
      (Inr ([4, 1, 0, 0] @ bytes_of ''nobody@0.0.0.0'' @ [0]), [EvResolve ''ip4'' []])"
    by (simp add: prepareRequest_def p b lookupAddr_def To4_def isSocks4a_def
        example_dialer_simps example_world_simps socksVersion_def socksConnect_def)
  have d4a: "Dial (example_dialer ''socks4a'' (proxy_conn 0x5a)) example_world ''tcp''
        ''example.com'' =
      ((Some (proxy_conn 0x5a), None),
       [EvDial ''tcp'' ''127.0.0.1:1080'',
        EvWrite ([4, 1, 0, 0, 0, 0, 0, 1] @ bytes_of ''nobody@0.0.0.0'' @ [0, 0]),
        EvRead])"
    by (simp add: Dial_def handshake_def r4a readReply_def replyStatus_def accessGranted_def
        minRequestLen_def example_dialer_simps proxy_conn_simps)
  have d4: "Dial (example_dialer ''socks4'' (proxy_conn 0x5a)) example_world ''tcp''
        ''example.com'' =
      ((Some (proxy_conn 0x5a), None),
       [EvDial ''tcp'' ''127.0.0.1:1080'',
        EvResolve ''ip4'' [],
        EvWrite ([4, 1, 0, 0] @ bytes_of ''nobody@0.0.0.0'' @ [0]),
        EvRead])"
    by (simp add: Dial_def handshake_def r4 readReply_def replyStatus_def accessGranted_def
        minRequestLen_def example_dialer_simps proxy_conn_simps bytes_of_def)
  from p d4a d4 show ?thesis by blast
qed

text \<open>
  Claim C3, evaluated on the address \<^verbatim>\<open>example.com:http\<close>, whose port is not a number.
  The error that \<^verbatim>\<open>parseAddr\<close> reports does not reach the caller of \<^verbatim>\<open>Dial\<close>: in
  socks4a mode \<^verbatim>\<open>Dial\<close> returns no error at all, and in socks4 mode with a resolver that
  finds nothing it returns \<^verbatim>\<open>ErrHostUnknown\<close> for the empty host name instead.
\<close>

theorem Dial_bad_port_error_dropped:
  "parseAddr ''example.com:http'' =
      ('''', 0, Some (ErrWrongAddr ''example.com:http'' (NumError ''Atoi'' ''http'' ErrSyntax)))
   \<and> Dial (example_dialer ''socks4a'' (proxy_conn 0x5a)) example_world ''tcp''
        ''example.com:http'' =
      ((Some (proxy_conn 0x5a), None),
       [EvDial ''tcp'' ''127.0.0.1:1080'',
        EvWrite ([4, 1, 0, 0, 0, 0, 0, 1] @ bytes_of ''nobody@0.0.0.0'' @ [0, 0]),
        EvRead])
   \<and> Dial (example_dialer ''socks4'' (proxy_conn 0x5a)) offline_world ''tcp''
        ''example.com:http'' =
      ((Some (proxy_conn 0x5a), Some (ErrHostUnknown [] (OtherError ''no such host''))),
       [EvDial ''tcp'' ''127.0.0.1:1080'', EvResolve ''ip4'' [], EvClose])"
proof -
  have p: "parseAddr ''example.com:http'' =
      ('''', 0, Some (ErrWrongAddr ''example.com:http'' (NumError ''Atoi'' ''http'' ErrSyntax)))"
    by (simp add: parseAddr_def SplitHostPort_def Atoi_def slice_def)
  have b: "BigEndian_uint16 (uint16 0) = [0, 0]"
    by (simp add: BigEndian_uint16_def uint16_def)
  have r4a: "prepareRequest (example_dialer ''socks4a'' (proxy_conn 0x5a)) example_world
        ''example.com:http'' =
      (Inr ([4, 1, 0, 0, 0, 0, 0, 1] @ bytes_of ''nobody@0.0.0.0'' @ [0, 0]), [])"
    by (simp add: prepareRequest_def p b To4_IPv4 isSocks4a_def example_dialer_simps
        example_world_simps socksVersion_def socksConnect_def bytes_of_def)
  have r4: "prepareRequest (example_dialer ''socks4'' (proxy_conn 0x5a)) offline_world
        ''example.com:http'' =
      (Inl (ErrHostUnknown [] (OtherError ''no such host'')), [EvResolve ''ip4'' []])"
    by (simp add: prepareRequest_def p lookupAddr_def isSocks4a_def
        example_dialer_simps offline_world_def)
  have d4a: "Dial (example_dialer ''socks4a'' (proxy_conn 0x5a)) example_world ''tcp''
        ''example.com:http'' =
      ((Some (proxy_conn 0x5a), None),
       [EvDial ''tcp'' ''127.0.0.1:1080'',
        EvWrite ([4, 1, 0, 0, 0, 0, 0, 1] @ bytes_of ''nobody@0.0.0.0'' @ [0, 0]),
        EvRead])"
    by (simp add: Dial_def handshake_def r4a readReply_def replyStatus_def accessGranted_def
        minRequestLen_def example_dialer_simps proxy_conn_simps)
  have d4: "Dial (example_dialer ''socks4'' (proxy_conn 0x5a)) offline_world ''tcp''
        ''example.com:http'' =
      ((Some (proxy_conn 0x5a), Some (ErrHostUnknown [] (OtherError ''no such host''))),
       [EvDial ''tcp'' ''127.0.0.1:1080'', EvResolve ''ip4'' [], EvClose])"
    by (simp add: Dial_def handshake_def r4 example_dialer_simps)
  from p d4a d4 show ?thesis by blast
qed

end
